theory Spec2Isabelle
  imports Main "HOL-Library.Word"
begin

section \<open>The contract ReviewerRecFHE\<close>

text \<open>
  A shallow embedding of the Solidity contract \<open>ReviewerRecFHE\<close>. A \<open>uint256\<close> is a
  256-bit word, a Solidity \<open>mapping\<close> a total function whose unwritten keys hold the
  zero value, a \<open>require\<close> or \<open>revert\<close> a result \<open>Inl\<close>, and the state after a public
  function the result \<open>Inr\<close>. The FHE library, the decryption oracle, \<open>abi.decode\<close> and
  the block are outside the contract: what they answer in one transaction is the
  record \<open>env\<close> that every function takes.
\<close>

subsection \<open>Data\<close>

type_synonym uint256 = "256 word"
type_synonym uint32 = "32 word"
type_synonym bytes32 = "256 word"
type_synonym bytes = "8 word list"

text \<open>
  Modelled from the spec: the type \<open>euint32\<close> of the FHE library, which the contract
  imports and never inspects, is an opaque ciphertext handle; it is passed to the oracle
  as a \<open>bytes32\<close> value.
\<close>

type_synonym euint32 = "256 word"

record EncryptedPaper =
  p_id :: uint256
  encryptedTitle :: euint32
  encryptedAbstract :: euint32
  encryptedKeywords :: euint32
  encryptedDiscipline :: euint32
  timestamp :: uint256

record EncryptedReviewer =
  r_id :: uint256
  encryptedExpertise :: euint32
  encryptedAffiliation :: euint32
  encryptedPublicationCount :: euint32
  encryptedReviewCount :: euint32

record MatchResult =
  mr_paperId :: uint256
  mr_reviewerId :: uint256
  matchScore :: euint32
  isRevealed :: bool

datatype event =
    PaperSubmitted uint256 uint256
  | ReviewerAdded uint256
  | MatchingRequested uint256
  | MatchRevealed uint256 uint256

text \<open>
  The storage of the contract, with the log of emitted events as a last field.
\<close>

record contract =
  paperCount :: uint256
  reviewerCount :: uint256
  encryptedPapers :: "uint256 \<Rightarrow> EncryptedPaper"
  encryptedReviewers :: "uint256 \<Rightarrow> EncryptedReviewer"
  matchResults :: "uint256 \<Rightarrow> MatchResult"
  requestToPaperId :: "uint256 \<Rightarrow> uint256"
  requestToReviewerId :: "uint256 \<Rightarrow> uint256"
  events :: "event list"

text \<open>The callback selectors handed to the oracle.\<close>

datatype callback = Sel_processMatching | Sel_finalizeReveal

text \<open>
  What the world outside the contract answers during one transaction:
  \<open>block.timestamp\<close>; \<open>FHE.toBytes32\<close>; \<open>FHE.asEuint32\<close>; \<open>FHE.requestDecryption\<close>, which
  returns the request identifier chosen by the library (\<open>None\<close> when the library call
  reverts); \<open>FHE.checkSignatures\<close>, which returns normally (\<open>True\<close>) or reverts
  (\<open>False\<close>); and \<open>abi.decode\<close> to \<open>string[]\<close>, which reverts on a malformed payload
  (\<open>None\<close>).
\<close>

record env =
  block_timestamp :: uint256
  toBytes32 :: "euint32 \<Rightarrow> bytes32"
  asEuint32 :: "uint32 \<Rightarrow> euint32"
  requestDecryption :: "bytes32 list \<Rightarrow> callback \<Rightarrow> uint256 option"
  checkSignatures :: "uint256 \<Rightarrow> bytes \<Rightarrow> bytes \<Rightarrow> bool"
  abi_decode :: "bytes \<Rightarrow> string list option"

text \<open>
  The ways a transaction aborts: a \<open>require\<close> or \<open>revert\<close> with its message, the
  arithmetic panic of a checked \<open>+=\<close>, and a revert inside one of the external calls.
\<close>

datatype error =
    Require string
  | Overflow
  | OracleReverted
  | InvalidSignatures
  | DecodeReverted

abbreviation InvalidPaperId :: error where
  "InvalidPaperId \<equiv> Require ''Invalid paper ID''"

abbreviation InvalidRequest :: error where
  "InvalidRequest \<equiv> Require ''Invalid request''"

abbreviation NoMatchFound :: error where
  "NoMatchFound \<equiv> Require ''No match found''"

abbreviation AlreadyRevealed :: error where
  "AlreadyRevealed \<equiv> Require ''Already revealed''"

abbreviation NoReviewersAvailable :: error where
  "NoReviewersAvailable \<equiv> Require ''No reviewers available''"

subsection \<open>The public functions\<close>

definition submitEncryptedPaper ::
  "env \<Rightarrow> euint32 \<Rightarrow> euint32 \<Rightarrow> euint32 \<Rightarrow> euint32 \<Rightarrow> contract \<Rightarrow> error + contract" where
  "submitEncryptedPaper E title abstract keywords discipline s =
     (if paperCount s = - 1 then Inl Overflow
      else
        let newId = paperCount s + 1 in
        Inr (s\<lparr>paperCount := newId,
               encryptedPapers := (encryptedPapers s)(newId :=
                 \<lparr>p_id = newId,
                  encryptedTitle = title,
                  encryptedAbstract = abstract,
                  encryptedKeywords = keywords,
                  encryptedDiscipline = discipline,
                  timestamp = block_timestamp E\<rparr>),
               events := events s @ [PaperSubmitted newId (block_timestamp E)]\<rparr>))"

definition addEncryptedReviewer ::
  "env \<Rightarrow> euint32 \<Rightarrow> euint32 \<Rightarrow> euint32 \<Rightarrow> euint32 \<Rightarrow> contract \<Rightarrow> error + contract" where
  "addEncryptedReviewer E expertise affiliation publicationCount reviewCount s =
     (if reviewerCount s = - 1 then Inl Overflow
      else
        let newId = reviewerCount s + 1 in
        Inr (s\<lparr>reviewerCount := newId,
               encryptedReviewers := (encryptedReviewers s)(newId :=
                 \<lparr>r_id = newId,
                  encryptedExpertise = expertise,
                  encryptedAffiliation = affiliation,
                  encryptedPublicationCount = publicationCount,
                  encryptedReviewCount = reviewCount\<rparr>),
               events := events s @ [ReviewerAdded newId]\<rparr>))"

definition requestMatchingReviewers :: "env \<Rightarrow> uint256 \<Rightarrow> contract \<Rightarrow> error + contract" where
  "requestMatchingReviewers E paperId s =
     (if \<not> paperId \<le> paperCount s then Inl (Require ''Invalid paper ID'')
      else
        let paper = encryptedPapers s paperId;
            ciphertexts = [toBytes32 E (encryptedTitle paper),
                           toBytes32 E (encryptedAbstract paper),
                           toBytes32 E (encryptedKeywords paper),
                           toBytes32 E (encryptedDiscipline paper)]
        in case requestDecryption E ciphertexts Sel_processMatching of
             None \<Rightarrow> Inl OracleReverted
           | Some reqId \<Rightarrow>
               Inr (s\<lparr>requestToPaperId := (requestToPaperId s)(reqId := paperId),
                      events := events s @ [MatchingRequested paperId]\<rparr>))"

text \<open>The private view function \<open>findBestMatch\<close>: it reads \<open>reviewerCount\<close> only.\<close>

definition findBestMatch :: "contract \<Rightarrow> string list \<Rightarrow> error + uint256" where
  "findBestMatch s paperData =
     (if reviewerCount s > 0 then Inr 1
      else Inl (Require ''No reviewers available''))"

definition processMatching ::
  "env \<Rightarrow> uint256 \<Rightarrow> bytes \<Rightarrow> bytes \<Rightarrow> contract \<Rightarrow> error + contract" where
  "processMatching E requestId cleartexts prf s =
     (let paperId = requestToPaperId s requestId in
      if \<not> paperId \<noteq> 0 then Inl (Require ''Invalid request'')
      else if \<not> checkSignatures E requestId cleartexts prf then Inl InvalidSignatures
      else case abi_decode E cleartexts of
             None \<Rightarrow> Inl DecodeReverted
           | Some paperData \<Rightarrow>
               (case findBestMatch s paperData of
                  Inl e \<Rightarrow> Inl e
                | Inr bestMatchId \<Rightarrow>
                    Inr (s\<lparr>matchResults := (matchResults s)(paperId :=
                           \<lparr>mr_paperId = paperId,
                            mr_reviewerId = bestMatchId,
                            matchScore = asEuint32 E 100,
                            isRevealed = False\<rparr>)\<rparr>)))"

definition revealMatchedReviewer :: "env \<Rightarrow> uint256 \<Rightarrow> contract \<Rightarrow> error + contract" where
  "revealMatchedReviewer E paperId s =
     (let result = matchResults s paperId in
      if \<not> mr_paperId result \<noteq> 0 then Inl (Require ''No match found'')
      else if \<not> \<not> isRevealed result then Inl (Require ''Already revealed'')
      else
        let reviewer = encryptedReviewers s (mr_reviewerId result);
            ciphertexts = [toBytes32 E (matchScore result)]
        in case requestDecryption E ciphertexts Sel_finalizeReveal of
             None \<Rightarrow> Inl OracleReverted
           | Some reqId \<Rightarrow>
               Inr (s\<lparr>requestToReviewerId := (requestToReviewerId s)(reqId := paperId)\<rparr>))"

definition finalizeReveal ::
  "env \<Rightarrow> uint256 \<Rightarrow> bytes \<Rightarrow> bytes \<Rightarrow> contract \<Rightarrow> error + contract" where
  "finalizeReveal E requestId cleartexts prf s =
     (let paperId = requestToReviewerId s requestId in
      if \<not> paperId \<noteq> 0 then Inl (Require ''Invalid request'')
      else
        let result = matchResults s paperId in
        if \<not> checkSignatures E requestId cleartexts prf then Inl InvalidSignatures
        else
          Inr (s\<lparr>matchResults := (matchResults s)(paperId := result\<lparr>isRevealed := True\<rparr>),
                 events := events s @ [MatchRevealed paperId (mr_reviewerId result)]\<rparr>))"

subsection \<open>Transactions\<close>

text \<open>
  A call of one of the six public functions. A transaction is a call together with what
  the outside world answers during it; a transaction that aborts leaves the state as it
  was, one that returns commits its state.
\<close>

datatype call =
    SubmitEncryptedPaper euint32 euint32 euint32 euint32
  | AddEncryptedReviewer euint32 euint32 euint32 euint32
  | RequestMatchingReviewers uint256
  | ProcessMatching uint256 bytes bytes
  | RevealMatchedReviewer uint256
  | FinalizeReveal uint256 bytes bytes

fun exec :: "env \<Rightarrow> call \<Rightarrow> contract \<Rightarrow> error + contract" where
  "exec E (SubmitEncryptedPaper a b c d) s = submitEncryptedPaper E a b c d s"
| "exec E (AddEncryptedReviewer a b c d) s = addEncryptedReviewer E a b c d s"
| "exec E (RequestMatchingReviewers paperId) s = requestMatchingReviewers E paperId s"
| "exec E (ProcessMatching requestId cleartexts prf) s =
     processMatching E requestId cleartexts prf s"
| "exec E (RevealMatchedReviewer paperId) s = revealMatchedReviewer E paperId s"
| "exec E (FinalizeReveal requestId cleartexts prf) s =
     finalizeReveal E requestId cleartexts prf s"

definition transact :: "contract \<Rightarrow> env \<times> call \<Rightarrow> contract" where
  "transact s t = (case exec (fst t) (snd t) s of Inl e \<Rightarrow> s | Inr s' \<Rightarrow> s')"

definition run :: "contract \<Rightarrow> (env \<times> call) list \<Rightarrow> contract" where
  "run s ts = foldl transact s ts"

text \<open>The storage of a freshly deployed contract: every slot is zero, the log is empty.\<close>

definition deployed :: contract where
  "deployed =
     \<lparr>paperCount = 0,
      reviewerCount = 0,
      encryptedPapers = (\<lambda>_. \<lparr>p_id = 0, encryptedTitle = 0, encryptedAbstract = 0,
                              encryptedKeywords = 0, encryptedDiscipline = 0, timestamp = 0\<rparr>),
      encryptedReviewers = (\<lambda>_. \<lparr>r_id = 0, encryptedExpertise = 0, encryptedAffiliation = 0,
                                 encryptedPublicationCount = 0, encryptedReviewCount = 0\<rparr>),
      matchResults = (\<lambda>_. \<lparr>mr_paperId = 0, mr_reviewerId = 0, matchScore = 0,
                           isRevealed = False\<rparr>),
      requestToPaperId = (\<lambda>_. 0),
      requestToReviewerId = (\<lambda>_. 0),
      events = []\<rparr>"

subsection \<open>Identifiers assigned along a run\<close>

text \<open>
  Neither submission function returns the identifier it assigns: it is the first argument
  of the event the function emits. The identifiers assigned so far are read off the log.
\<close>

fun paper_ids :: "event list \<Rightarrow> uint256 list" where
  "paper_ids [] = []"
| "paper_ids (PaperSubmitted i t # es) = i # paper_ids es"
| "paper_ids (ReviewerAdded i # es) = paper_ids es"
| "paper_ids (MatchingRequested i # es) = paper_ids es"
| "paper_ids (MatchRevealed i j # es) = paper_ids es"

fun reviewer_ids :: "event list \<Rightarrow> uint256 list" where
  "reviewer_ids [] = []"
| "reviewer_ids (PaperSubmitted i t # es) = reviewer_ids es"
| "reviewer_ids (ReviewerAdded i # es) = i # reviewer_ids es"
| "reviewer_ids (MatchingRequested i # es) = reviewer_ids es"
| "reviewer_ids (MatchRevealed i j # es) = reviewer_ids es"

fun is_paper_submission :: "call \<Rightarrow> bool" where
  "is_paper_submission (SubmitEncryptedPaper a b c d) = True"
| "is_paper_submission (AddEncryptedReviewer a b c d) = False"
| "is_paper_submission (RequestMatchingReviewers paperId) = False"
| "is_paper_submission (ProcessMatching requestId cleartexts prf) = False"
| "is_paper_submission (RevealMatchedReviewer paperId) = False"
| "is_paper_submission (FinalizeReveal requestId cleartexts prf) = False"

fun is_reviewer_submission :: "call \<Rightarrow> bool" where
  "is_reviewer_submission (SubmitEncryptedPaper a b c d) = False"
| "is_reviewer_submission (AddEncryptedReviewer a b c d) = True"
| "is_reviewer_submission (RequestMatchingReviewers paperId) = False"
| "is_reviewer_submission (ProcessMatching requestId cleartexts prf) = False"
| "is_reviewer_submission (RevealMatchedReviewer paperId) = False"
| "is_reviewer_submission (FinalizeReveal requestId cleartexts prf) = False"

definition succeeds :: "contract \<Rightarrow> env \<times> call \<Rightarrow> bool" where
  "succeeds s t = (case exec (fst t) (snd t) s of Inl e \<Rightarrow> False | Inr s' \<Rightarrow> True)"

text \<open>The number of transactions of a run that are successful submissions.\<close>

fun paper_submissions :: "contract \<Rightarrow> (env \<times> call) list \<Rightarrow> nat" where
  "paper_submissions s [] = 0"
| "paper_submissions s (t # ts) =
     (if is_paper_submission (snd t) \<and> succeeds s t then 1 else 0)
       + paper_submissions (transact s t) ts"

fun reviewer_submissions :: "contract \<Rightarrow> (env \<times> call) list \<Rightarrow> nat" where
  "reviewer_submissions s [] = 0"
| "reviewer_submissions s (t # ts) =
     (if is_reviewer_submission (snd t) \<and> succeeds s t then 1 else 0)
       + reviewer_submissions (transact s t) ts"

subsection \<open>Requests and rematches\<close>

text \<open>
  The four ciphertext handles that \<open>requestMatchingReviewers\<close> sends to the oracle for a
  paper identifier.
\<close>

definition matching_ciphertexts :: "env \<Rightarrow> contract \<Rightarrow> uint256 \<Rightarrow> bytes32 list" where
  "matching_ciphertexts E s paperId =
     [toBytes32 E (encryptedTitle (encryptedPapers s paperId)),
      toBytes32 E (encryptedAbstract (encryptedPapers s paperId)),
      toBytes32 E (encryptedKeywords (encryptedPapers s paperId)),
      toBytes32 E (encryptedDiscipline (encryptedPapers s paperId))]"



subsection \<open>Scenarios\<close>

text \<open>
  A concrete outside world for the scenarios below: the oracle answers every request with
  the identifier \<open>r\<close>, every proof verifies and every payload decodes. In \<open>env_bad\<close> no
  proof verifies.
\<close>

definition env_ok :: "uint256 \<Rightarrow> env" where
  "env_ok r =
     \<lparr>block_timestamp = 1000,
      toBytes32 = (\<lambda>h. h),
      asEuint32 = (\<lambda>v. ucast v),
      requestDecryption = (\<lambda>cts sel. Some r),
      checkSignatures = (\<lambda>requestId cleartexts prf. True),
      abi_decode = (\<lambda>cleartexts. Some [])\<rparr>"

definition env_bad :: "uint256 \<Rightarrow> env" where
  "env_bad r = (env_ok r)\<lparr>checkSignatures := (\<lambda>requestId cleartexts prf. False)\<rparr>"

text \<open>
  One paper and one reviewer are submitted and matching is requested for paper 1; the
  oracle numbers the request 7.
\<close>

definition s_requested :: contract where
  "s_requested = run deployed
     [(env_ok 7, SubmitEncryptedPaper 11 12 13 14),
      (env_ok 7, AddEncryptedReviewer 21 22 23 24),
      (env_ok 7, RequestMatchingReviewers 1)]"

text \<open>The oracle calls back for request 7.\<close>

definition s_matched :: contract where
  "s_matched = transact s_requested (env_ok 7, ProcessMatching 7 [] [])"

text \<open>The reveal of paper 1 is requested; the oracle numbers the request 8.\<close>

definition s_reveal_requested :: contract where
  "s_reveal_requested = transact s_matched (env_ok 8, RevealMatchedReviewer 1)"

text \<open>The oracle calls back for request 8.\<close>

definition s_revealed :: contract where
  "s_revealed = transact s_reveal_requested (env_ok 8, FinalizeReveal 8 [] [])"

text \<open>Matching is requested for paper 1 while no reviewer is registered.\<close>

definition s_no_reviewer :: contract where
  "s_no_reviewer = run deployed
     [(env_ok 7, SubmitEncryptedPaper 11 12 13 14),
      (env_ok 7, RequestMatchingReviewers 1)]"

section \<open>Properties\<close>

subsection \<open>Unfolding and the shape of a successful callback\<close>

lemmas fun_defs = submitEncryptedPaper_def addEncryptedReviewer_def requestMatchingReviewers_def
  findBestMatch_def processMatching_def revealMatchedReviewer_def finalizeReveal_def

lemmas scenario_defs = s_requested_def s_matched_def s_reveal_requested_def s_revealed_def
  s_no_reviewer_def run_def transact_def deployed_def env_ok_def env_bad_def

lemma run_Nil: "run s [] = s"
  by (simp add: run_def)

lemma run_Cons: "run s (t # ts) = run (transact s t) ts"
  by (simp add: run_def)

lemma run_snoc: "run s (ts @ [t]) = transact (run s ts) t"
  by (simp add: run_def)

lemma processMatching_Inr_iff:
  "processMatching E r c p s = Inr s' \<longleftrightarrow>
     requestToPaperId s r \<noteq> 0 \<and> checkSignatures E r c p \<and> abi_decode E c \<noteq> None \<and>
     0 < reviewerCount s \<and>
     s' = s\<lparr>matchResults := (matchResults s)(requestToPaperId s r :=
            \<lparr>mr_paperId = requestToPaperId s r, mr_reviewerId = 1,
             matchScore = asEuint32 E 100, isRevealed = False\<rparr>)\<rparr>"
  by (auto simp: processMatching_def findBestMatch_def Let_def split: option.splits)

lemma finalizeReveal_Inr_iff:
  "finalizeReveal E r c p s = Inr s' \<longleftrightarrow>
     requestToReviewerId s r \<noteq> 0 \<and> checkSignatures E r c p \<and>
     s' = s\<lparr>matchResults := (matchResults s)(requestToReviewerId s r :=
              (matchResults s (requestToReviewerId s r))\<lparr>isRevealed := True\<rparr>),
            events := events s @ [MatchRevealed (requestToReviewerId s r)
              (mr_reviewerId (matchResults s (requestToReviewerId s r)))]\<rparr>"
  by (auto simp: finalizeReveal_def Let_def)



subsection \<open>Replay of a callback\<close>




subsection \<open>The range check of a matching request\<close>

text \<open>
  What the guard of \<open>requestMatchingReviewers\<close> does: an identifier above the paper
  count is rejected, every identifier up to the paper count, 0 included, passes, and the
  request is recorded once the oracle has numbered it.
\<close>

lemma requestMatchingReviewers_range:
  "(paperCount s < paperId \<longrightarrow> requestMatchingReviewers E paperId s = Inl InvalidPaperId) \<and>
   (paperId \<le> paperCount s \<and>
    requestDecryption E (matching_ciphertexts E s paperId) Sel_processMatching = Some q \<longrightarrow>
      requestMatchingReviewers E paperId s =
        Inr (s\<lparr>requestToPaperId := (requestToPaperId s)(q := paperId),
               events := events s @ [MatchingRequested paperId]\<rparr>))"
  by (auto simp: requestMatchingReviewers_def matching_ciphertexts_def Let_def not_le)

text \<open>
  C2, at the identifier 0: on the freshly deployed contract, where no paper exists,
  \<open>requestMatchingReviewers 0\<close> does not fail with InvalidPaperId. It records the pending
  entry 7 \<open>\<mapsto>\<close> 0 and emits MatchingRequested 0.
\<close>

theorem requestMatchingReviewers_zero_accepted:
  "requestMatchingReviewers (env_ok 7) 0 deployed =
     Inr (deployed\<lparr>requestToPaperId := (requestToPaperId deployed)(7 := 0),
                   events := [MatchingRequested 0]\<rparr>)"
  by (simp add: requestMatchingReviewers_def deployed_def env_ok_def Let_def)

subsection \<open>A request for the paper identifier 0\<close>





subsection \<open>The revealed flag\<close>







subsection \<open>Failed proof verification\<close>

text \<open>
  C4: when \<open>checkSignatures\<close> rejects the proof, both callbacks abort, with
  InvalidRequest when the request identifier has no pending entry and with the verifier's
  revert otherwise, and the transaction leaves the whole state, the match results, the
  revealed flags and the event log included, as it was.
\<close>

theorem failed_verification_aborts:
  "(\<not> checkSignatures E r c p \<longrightarrow>
      processMatching E r c p s =
        Inl (if requestToPaperId s r = 0 then InvalidRequest else InvalidSignatures) \<and>
      transact s (E, ProcessMatching r c p) = s) \<and>
   (\<not> checkSignatures E q c p \<longrightarrow>
      finalizeReveal E q c p s =
        Inl (if requestToReviewerId s q = 0 then InvalidRequest else InvalidSignatures) \<and>
      transact s (E, FinalizeReveal q c p) = s)"
  by (simp add: processMatching_def finalizeReveal_def transact_def Let_def)

theorem failed_verification_aborts_witness:
  "\<not> checkSignatures (env_bad 9) 7 [] [] \<and> \<not> checkSignatures (env_bad 9) 8 [] [] \<and>
   requestToPaperId s_reveal_requested 7 = 1 \<and> requestToReviewerId s_reveal_requested 8 = 1 \<and>
   processMatching (env_bad 9) 7 [] [] s_reveal_requested = Inl InvalidSignatures \<and>
   finalizeReveal (env_bad 9) 8 [] [] s_reveal_requested = Inl InvalidSignatures \<and>
   transact s_reveal_requested (env_bad 9, ProcessMatching 7 [] []) = s_reveal_requested \<and>
   transact s_reveal_requested (env_bad 9, FinalizeReveal 8 [] []) = s_reveal_requested"
  using failed_verification_aborts [of "env_bad 9" 7 "[]" "[]" s_reveal_requested 8]
  by (simp add: scenario_defs fun_defs Let_def)

subsection \<open>The matching evaluation\<close>

text \<open>
  C5: with no reviewer registered, a \<open>processMatching\<close> callback that reaches the
  matching evaluation (pending entry present, proof verified, payload decoded) fails with
  NoReviewersAvailable, and the transaction leaves the state, \<open>matchResults\<close> in
  particular, unchanged.
\<close>

theorem no_reviewers_no_match:
  "reviewerCount s = 0 \<Longrightarrow> requestToPaperId s r \<noteq> 0 \<Longrightarrow> checkSignatures E r c p \<Longrightarrow>
   abi_decode E c = Some d \<Longrightarrow>
   processMatching E r c p s = Inl NoReviewersAvailable \<and>
   transact s (E, ProcessMatching r c p) = s \<and>
   matchResults (transact s (E, ProcessMatching r c p)) = matchResults s"
  by (simp add: processMatching_def findBestMatch_def transact_def)

theorem no_reviewers_no_match_witness:
  "reviewerCount s_no_reviewer = 0 \<and> requestToPaperId s_no_reviewer 7 \<noteq> 0 \<and>
   checkSignatures (env_ok 7) 7 [] [] \<and> abi_decode (env_ok 7) [] = Some [] \<and>
   processMatching (env_ok 7) 7 [] [] s_no_reviewer = Inl NoReviewersAvailable \<and>
   matchResults (transact s_no_reviewer (env_ok 7, ProcessMatching 7 [] [])) 1 =
     \<lparr>mr_paperId = 0, mr_reviewerId = 0, matchScore = 0, isRevealed = False\<rparr>"
  using no_reviewers_no_match [of s_no_reviewer 7 "env_ok 7" "[]" "[]" "[]"]
  by (simp add: scenario_defs fun_defs Let_def)

text \<open>
  C8: \<open>findBestMatch\<close> returns 1 for every list of descriptors once a reviewer is
  registered, and two successful \<open>processMatching\<close> callbacks on the same state for the
  same request, with any payloads, proofs and verifiers, both store the reviewer
  identifier 1.
\<close>

theorem reviewer_independent_of_cleartext:
  "(0 < reviewerCount s \<longrightarrow> findBestMatch s d1 = Inr 1 \<and> findBestMatch s d2 = Inr 1) \<and>
   (processMatching E1 r c1 p1 s = Inr s1 \<and> processMatching E2 r c2 p2 s = Inr s2 \<longrightarrow>
      mr_reviewerId (matchResults s1 (requestToPaperId s r)) = 1 \<and>
      mr_reviewerId (matchResults s2 (requestToPaperId s r)) = 1 \<and>
      mr_reviewerId (matchResults s1 (requestToPaperId s r)) =
        mr_reviewerId (matchResults s2 (requestToPaperId s r)))"
  by (simp add: processMatching_Inr_iff findBestMatch_def)

theorem reviewer_independent_of_cleartext_witness:
  "0 < reviewerCount s_requested \<and>
   processMatching (env_ok 7) 7 [1, 2] [] s_requested = Inr s_matched \<and>
   processMatching (env_ok 8) 7 [3] [4] s_requested = Inr s_matched \<and>
   findBestMatch s_requested [''a''] = Inr 1 \<and> findBestMatch s_requested [''b'', ''c''] = Inr 1 \<and>
   mr_reviewerId (matchResults s_matched 1) = 1"
  using reviewer_independent_of_cleartext
    [of s_requested "[''a'']" "[''b'', ''c'']" "env_ok 7" 7 "[1, 2]" "[]" s_matched
        "env_ok 8" "[3]" "[4]" s_matched]
  by (simp add: scenario_defs fun_defs Let_def)

text \<open>
  C10: the result that a successful \<open>processMatching\<close> callback stores for its paper has
  as score the trivial encryption \<open>asEuint32 100\<close>, for every state, request, payload and
  proof.
\<close>

theorem processMatching_score_constant:
  "processMatching E r c p s = Inr s' \<Longrightarrow>
   matchResults s' (requestToPaperId s r) =
     \<lparr>mr_paperId = requestToPaperId s r, mr_reviewerId = 1,
      matchScore = asEuint32 E 100, isRevealed = False\<rparr> \<and>
   matchScore (matchResults s' (requestToPaperId s r)) = asEuint32 E 100"
  by (simp add: processMatching_Inr_iff)

theorem processMatching_score_constant_witness:
  "processMatching (env_ok 7) 7 [] [] s_requested = Inr s_matched \<and>
   requestToPaperId s_requested 7 = 1 \<and>
   matchScore (matchResults s_matched 1) = asEuint32 (env_ok 7) 100"
  using processMatching_score_constant [of "env_ok 7" 7 "[]" "[]" s_requested s_matched]
  by (simp add: scenario_defs fun_defs Let_def)

subsection \<open>Requesting a reveal\<close>

text \<open>
  In every state the contract can reach, a revealed flag is set only on a stored result,
  and every pending reveal request points to a stored result.
\<close>

lemma transact_revealed_has_match:
  assumes "\<forall>k. isRevealed (matchResults s k) \<longrightarrow> mr_paperId (matchResults s k) \<noteq> 0"
    and "\<forall>q. requestToReviewerId s q \<noteq> 0 \<longrightarrow>
           mr_paperId (matchResults s (requestToReviewerId s q)) \<noteq> 0"
  shows "(\<forall>k. isRevealed (matchResults (transact s t) k) \<longrightarrow>
              mr_paperId (matchResults (transact s t) k) \<noteq> 0) \<and>
         (\<forall>q. requestToReviewerId (transact s t) q \<noteq> 0 \<longrightarrow>
              mr_paperId (matchResults (transact s t) (requestToReviewerId (transact s t) q)) \<noteq> 0)"
  using assms
  by (cases t; cases "snd t")
     (auto simp: transact_def processMatching_Inr_iff finalizeReveal_Inr_iff
        submitEncryptedPaper_def addEncryptedReviewer_def requestMatchingReviewers_def
        revealMatchedReviewer_def Let_def split: sum.splits if_splits option.splits)

lemma reachable_revealed_has_match:
  "(\<forall>k. isRevealed (matchResults (run deployed ts) k) \<longrightarrow>
        mr_paperId (matchResults (run deployed ts) k) \<noteq> 0) \<and>
   (\<forall>q. requestToReviewerId (run deployed ts) q \<noteq> 0 \<longrightarrow>
        mr_paperId (matchResults (run deployed ts) (requestToReviewerId (run deployed ts) q)) \<noteq> 0)"
proof (induction ts rule: rev_induct)
  case Nil
  show ?case by (simp add: run_Nil deployed_def)
next
  case (snoc t ts)
  then show ?case
    using transact_revealed_has_match [of "run deployed ts" t] by (simp add: run_snoc)
qed

text \<open>
  C6: \<open>revealMatchedReviewer\<close> fails with NoMatchFound when no result is stored for the
  paper (the stored \<open>paperId\<close> field is 0) and with AlreadyRevealed when the stored result
  is revealed; in every reachable state a set revealed flag alone gives AlreadyRevealed.
  In each case the transaction leaves the state, the pending reveal requests included,
  unchanged.
\<close>

theorem revealMatchedReviewer_guards:
  "(mr_paperId (matchResults s paperId) = 0 \<longrightarrow>
      revealMatchedReviewer E paperId s = Inl NoMatchFound \<and>
      transact s (E, RevealMatchedReviewer paperId) = s) \<and>
   (mr_paperId (matchResults s k) \<noteq> 0 \<and> isRevealed (matchResults s k) \<longrightarrow>
      revealMatchedReviewer E k s = Inl AlreadyRevealed \<and>
      transact s (E, RevealMatchedReviewer k) = s) \<and>
   (isRevealed (matchResults (run deployed ts) j) \<longrightarrow>
      revealMatchedReviewer E j (run deployed ts) = Inl AlreadyRevealed \<and>
      transact (run deployed ts) (E, RevealMatchedReviewer j) = run deployed ts)"
  using reachable_revealed_has_match [of ts]
  by (simp add: revealMatchedReviewer_def transact_def Let_def)

theorem revealMatchedReviewer_guards_witness:
  "mr_paperId (matchResults s_revealed 2) = 0 \<and>
   mr_paperId (matchResults s_revealed 1) \<noteq> 0 \<and> isRevealed (matchResults s_revealed 1) \<and>
   isRevealed (matchResults (run deployed
     [(env_ok 7, SubmitEncryptedPaper 11 12 13 14), (env_ok 7, AddEncryptedReviewer 21 22 23 24),
      (env_ok 7, RequestMatchingReviewers 1), (env_ok 7, ProcessMatching 7 [] []),
      (env_ok 8, RevealMatchedReviewer 1), (env_ok 8, FinalizeReveal 8 [] [])]) 1) \<and>
   revealMatchedReviewer (env_ok 9) 2 s_revealed = Inl NoMatchFound \<and>
   revealMatchedReviewer (env_ok 9) 1 s_revealed = Inl AlreadyRevealed \<and>
   requestToReviewerId (transact s_revealed (env_ok 9, RevealMatchedReviewer 2)) 9 = 0 \<and>
   requestToReviewerId (transact s_revealed (env_ok 9, RevealMatchedReviewer 1)) 9 = 0"
  using revealMatchedReviewer_guards [of s_revealed 2 "env_ok 9" 1
     "[(env_ok 7, SubmitEncryptedPaper 11 12 13 14), (env_ok 7, AddEncryptedReviewer 21 22 23 24),
      (env_ok 7, RequestMatchingReviewers 1), (env_ok 7, ProcessMatching 7 [] []),
      (env_ok 8, RevealMatchedReviewer 1), (env_ok 8, FinalizeReveal 8 [] [])]" 1]
  by (simp add: scenario_defs fun_defs Let_def)

subsection \<open>Sequential identifiers\<close>

lemma paper_ids_append: "paper_ids (es @ fs) = paper_ids es @ paper_ids fs"
  by (induction es rule: paper_ids.induct) simp_all

lemma reviewer_ids_append: "reviewer_ids (es @ fs) = reviewer_ids es @ reviewer_ids fs"
  by (induction es rule: reviewer_ids.induct) simp_all

lemma unat_succ: "(x::uint256) \<noteq> - 1 \<Longrightarrow> unat (x + 1) = Suc (unat x)"
  using unatSuc [of x] max_word_wrap [of x] by (auto simp: add.commute)

lemma submitEncryptedPaper_Inr:
  "submitEncryptedPaper E a b c d s = Inr s' \<Longrightarrow>
   unat (paperCount s') = unat (paperCount s) + 1 \<and>
   paperCount s' = paperCount s + 1 \<and>
   reviewerCount s' = reviewerCount s \<and>
   events s' = events s @ [PaperSubmitted (paperCount s') (block_timestamp E)] \<and>
   p_id (encryptedPapers s' (paperCount s')) = paperCount s'"
  by (auto simp: submitEncryptedPaper_def Let_def unat_succ split: if_splits)

lemma addEncryptedReviewer_Inr:
  "addEncryptedReviewer E a b c d s = Inr s' \<Longrightarrow>
   unat (reviewerCount s') = unat (reviewerCount s) + 1 \<and>
   reviewerCount s' = reviewerCount s + 1 \<and>
   paperCount s' = paperCount s \<and>
   events s' = events s @ [ReviewerAdded (reviewerCount s')] \<and>
   r_id (encryptedReviewers s' (reviewerCount s')) = reviewerCount s'"
  by (auto simp: addEncryptedReviewer_def Let_def unat_succ split: if_splits)

lemma exec_papers:
  "exec E x s = Inr s' \<Longrightarrow>
   unat (paperCount s') = unat (paperCount s) + (if is_paper_submission x then 1 else 0) \<and>
   map unat (paper_ids (events s')) =
     map unat (paper_ids (events s)) @
       (if is_paper_submission x then [Suc (unat (paperCount s))] else [])"
  by (cases x)
     (auto simp: paper_ids_append processMatching_Inr_iff finalizeReveal_Inr_iff
        requestMatchingReviewers_def revealMatchedReviewer_def Let_def
        split: if_splits option.splits
        dest!: submitEncryptedPaper_Inr addEncryptedReviewer_Inr)

lemma exec_reviewers:
  "exec E x s = Inr s' \<Longrightarrow>
   unat (reviewerCount s') = unat (reviewerCount s) + (if is_reviewer_submission x then 1 else 0) \<and>
   map unat (reviewer_ids (events s')) =
     map unat (reviewer_ids (events s)) @
       (if is_reviewer_submission x then [Suc (unat (reviewerCount s))] else [])"
  by (cases x)
     (auto simp: reviewer_ids_append processMatching_Inr_iff finalizeReveal_Inr_iff
        requestMatchingReviewers_def revealMatchedReviewer_def Let_def
        split: if_splits option.splits
        dest!: submitEncryptedPaper_Inr addEncryptedReviewer_Inr)

lemma transact_papers:
  "unat (paperCount (transact s t)) =
     unat (paperCount s) + (if is_paper_submission (snd t) \<and> succeeds s t then 1 else 0) \<and>
   map unat (paper_ids (events (transact s t))) =
     map unat (paper_ids (events s)) @
       (if is_paper_submission (snd t) \<and> succeeds s t then [Suc (unat (paperCount s))] else [])"
proof (cases "exec (fst t) (snd t) s")
  case (Inl e)
  then show ?thesis by (simp add: transact_def succeeds_def)
next
  case (Inr s')
  then have "transact s t = s'" "succeeds s t" by (simp_all add: transact_def succeeds_def)
  then show ?thesis using exec_papers [OF Inr] by simp
qed

lemma transact_reviewers:
  "unat (reviewerCount (transact s t)) =
     unat (reviewerCount s) + (if is_reviewer_submission (snd t) \<and> succeeds s t then 1 else 0) \<and>
   map unat (reviewer_ids (events (transact s t))) =
     map unat (reviewer_ids (events s)) @
       (if is_reviewer_submission (snd t) \<and> succeeds s t then [Suc (unat (reviewerCount s))] else [])"
proof (cases "exec (fst t) (snd t) s")
  case (Inl e)
  then show ?thesis by (simp add: transact_def succeeds_def)
next
  case (Inr s')
  then have "transact s t = s'" "succeeds s t" by (simp_all add: transact_def succeeds_def)
  then show ?thesis using exec_reviewers [OF Inr] by simp
qed

lemma run_papers:
  "map unat (paper_ids (events s)) = [1 ..< Suc (unat (paperCount s))] \<Longrightarrow>
   unat (paperCount (run s ts)) = unat (paperCount s) + paper_submissions s ts \<and>
   map unat (paper_ids (events (run s ts))) =
     [1 ..< Suc (unat (paperCount s) + paper_submissions s ts)]"
proof (induction ts arbitrary: s)
  case Nil
  then show ?case by (simp add: run_Nil)
next
  case (Cons t ts)
  have inv: "map unat (paper_ids (events (transact s t))) =
               [1 ..< Suc (unat (paperCount (transact s t)))]"
    using Cons.prems transact_papers [of s t] by simp
  show ?case
    using Cons.IH [OF inv] transact_papers [of s t] by (simp add: run_Cons)
qed

lemma run_reviewers:
  "map unat (reviewer_ids (events s)) = [1 ..< Suc (unat (reviewerCount s))] \<Longrightarrow>
   unat (reviewerCount (run s ts)) = unat (reviewerCount s) + reviewer_submissions s ts \<and>
   map unat (reviewer_ids (events (run s ts))) =
     [1 ..< Suc (unat (reviewerCount s) + reviewer_submissions s ts)]"
proof (induction ts arbitrary: s)
  case Nil
  then show ?case by (simp add: run_Nil)
next
  case (Cons t ts)
  have inv: "map unat (reviewer_ids (events (transact s t))) =
               [1 ..< Suc (unat (reviewerCount (transact s t)))]"
    using Cons.prems transact_reviewers [of s t] by simp
  show ?case
    using Cons.IH [OF inv] transact_reviewers [of s t] by (simp add: run_Cons)
qed

text \<open>
  C7: in the state reached from deployment by any run, the paper identifiers assigned are
  1, 2, ..., n in this order, where n is the number of successful paper submissions of the
  run, and \<open>paperCount\<close> is n; likewise for the reviewers with their own counter. A
  successful submission raises its counter by exactly 1, assigns the new value of the
  counter and leaves the other counter alone.
\<close>

theorem identifiers_sequential:
  "map unat (paper_ids (events (run deployed ts))) = [1 ..< Suc (paper_submissions deployed ts)] \<and>
   map unat (reviewer_ids (events (run deployed ts))) =
     [1 ..< Suc (reviewer_submissions deployed ts)] \<and>
   unat (paperCount (run deployed ts)) = paper_submissions deployed ts \<and>
   unat (reviewerCount (run deployed ts)) = reviewer_submissions deployed ts \<and>
   (submitEncryptedPaper E a b c d s = Inr s1 \<longrightarrow>
      unat (paperCount s1) = unat (paperCount s) + 1 \<and>
      reviewerCount s1 = reviewerCount s \<and>
      events s1 = events s @ [PaperSubmitted (paperCount s1) (block_timestamp E)] \<and>
      p_id (encryptedPapers s1 (paperCount s1)) = paperCount s1) \<and>
   (addEncryptedReviewer E a b c d s = Inr s2 \<longrightarrow>
      unat (reviewerCount s2) = unat (reviewerCount s) + 1 \<and>
      paperCount s2 = paperCount s \<and>
      events s2 = events s @ [ReviewerAdded (reviewerCount s2)] \<and>
      r_id (encryptedReviewers s2 (reviewerCount s2)) = reviewerCount s2)"
proof -
  have p: "map unat (paper_ids (events deployed)) = [1 ..< Suc (unat (paperCount deployed))]"
    by (simp add: deployed_def)
  have r: "map unat (reviewer_ids (events deployed)) = [1 ..< Suc (unat (reviewerCount deployed))]"
    by (simp add: deployed_def)
  have z: "unat (paperCount deployed) = 0" "unat (reviewerCount deployed) = 0"
    by (simp_all add: deployed_def)
  have A: "map unat (paper_ids (events (run deployed ts))) =
             [1 ..< Suc (paper_submissions deployed ts)] \<and>
           unat (paperCount (run deployed ts)) = paper_submissions deployed ts"
    using run_papers [OF p, of ts] z by simp
  have B: "map unat (reviewer_ids (events (run deployed ts))) =
             [1 ..< Suc (reviewer_submissions deployed ts)] \<and>
           unat (reviewerCount (run deployed ts)) = reviewer_submissions deployed ts"
    using run_reviewers [OF r, of ts] z by simp
  have C: "submitEncryptedPaper E a b c d s = Inr s1 \<longrightarrow>
      unat (paperCount s1) = unat (paperCount s) + 1 \<and>
      reviewerCount s1 = reviewerCount s \<and>
      events s1 = events s @ [PaperSubmitted (paperCount s1) (block_timestamp E)] \<and>
      p_id (encryptedPapers s1 (paperCount s1)) = paperCount s1"
    using submitEncryptedPaper_Inr [of E a b c d s s1] by blast
  have D: "addEncryptedReviewer E a b c d s = Inr s2 \<longrightarrow>
      unat (reviewerCount s2) = unat (reviewerCount s) + 1 \<and>
      paperCount s2 = paperCount s \<and>
      events s2 = events s @ [ReviewerAdded (reviewerCount s2)] \<and>
      r_id (encryptedReviewers s2 (reviewerCount s2)) = reviewerCount s2"
    using addEncryptedReviewer_Inr [of E a b c d s s2] by blast
  from A B C D show ?thesis by blast
qed

theorem identifiers_sequential_witness:
  "submitEncryptedPaper (env_ok 7) 31 32 33 34 s_requested =
     Inr (transact s_requested (env_ok 7, SubmitEncryptedPaper 31 32 33 34)) \<and>
   addEncryptedReviewer (env_ok 7) 31 32 33 34 s_requested =
     Inr (transact s_requested (env_ok 7, AddEncryptedReviewer 31 32 33 34)) \<and>
   paperCount s_requested = 1 \<and>
   paperCount (transact s_requested (env_ok 7, SubmitEncryptedPaper 31 32 33 34)) = 2 \<and>
   reviewerCount (transact s_requested (env_ok 7, SubmitEncryptedPaper 31 32 33 34)) = 1 \<and>
   reviewerCount (transact s_requested (env_ok 7, AddEncryptedReviewer 31 32 33 34)) = 2 \<and>
   paper_ids (events (run deployed
     [(env_ok 7, SubmitEncryptedPaper 11 12 13 14), (env_ok 7, AddEncryptedReviewer 21 22 23 24),
      (env_ok 7, RequestMatchingReviewers 5), (env_ok 7, SubmitEncryptedPaper 15 16 17 18)])) = [1, 2] \<and>
   paper_submissions deployed
     [(env_ok 7, SubmitEncryptedPaper 11 12 13 14), (env_ok 7, AddEncryptedReviewer 21 22 23 24),
      (env_ok 7, RequestMatchingReviewers 5), (env_ok 7, SubmitEncryptedPaper 15 16 17 18)] = 2"
  using identifiers_sequential [of
     "[(env_ok 7, SubmitEncryptedPaper 11 12 13 14), (env_ok 7, AddEncryptedReviewer 21 22 23 24),
      (env_ok 7, RequestMatchingReviewers 5), (env_ok 7, SubmitEncryptedPaper 15 16 17 18)]"
     "env_ok 7" 31 32 33 34 s_requested
     "transact s_requested (env_ok 7, SubmitEncryptedPaper 31 32 33 34)"
     "transact s_requested (env_ok 7, AddEncryptedReviewer 31 32 33 34)"]
  by (simp add: scenario_defs succeeds_def fun_defs Let_def)

end
